theory Spec2Isabelle
  imports Main "HOL-Library.Word"
begin

section \<open>Platform primitives\<close>

text \<open>
  The password code runs on the Web Crypto API. Three platform functions are not part of
  the repository and are taken as parameters of every definition that calls them:
  \<^item> \<open>enc\<close>: \<^verbatim>\<open>new TextEncoder().encode(password)\<close>, the UTF-8 bytes of a string;
  \<^item> \<open>sha\<close>: \<^verbatim>\<open>crypto.subtle.digest('SHA-256', data)\<close>;
  \<^item> \<open>kdf\<close>: \<^verbatim>\<open>crypto.subtle.deriveBits({name: 'PBKDF2', salt, iterations, hash: 'SHA-256'},
    keyMaterial, bits)\<close>, applied to key material, salt, iteration count and bit length.
  Random values (\<^verbatim>\<open>crypto.getRandomValues\<close>) and the clock (\<^verbatim>\<open>Date.now()\<close>) are
  arguments of the functions that read them. Strings are lists of 8-bit characters.
\<close>

type_synonym byte = "8 word"
type_synonym encoder = "string \<Rightarrow> byte list"
type_synonym digest = "byte list \<Rightarrow> byte list"
type_synonym deriveBits = "byte list \<Rightarrow> byte list \<Rightarrow> nat \<Rightarrow> nat \<Rightarrow> byte list"

section \<open>String helpers of the JavaScript runtime\<close>

text \<open>\<^verbatim>\<open>Number.prototype.toString(radix)\<close> for radix 16 and 10 on non-negative integers.\<close>

definition digitChar :: "nat \<Rightarrow> char" where
  "digitChar n = ''0123456789abcdef'' ! (n mod 16)"

fun toString16 :: "nat \<Rightarrow> string" where
  "toString16 n =
     (if n < 16 then [digitChar n] else toString16 (n div 16) @ [digitChar (n mod 16)])"

fun toString10 :: "nat \<Rightarrow> string" where
  "toString10 n =
     (if n < 10 then [digitChar n] else toString10 (n div 10) @ [digitChar (n mod 10)])"

text \<open>\<^verbatim>\<open>s.padStart(n, c)\<close> with a one-character filler.\<close>

definition padStart :: "nat \<Rightarrow> char \<Rightarrow> string \<Rightarrow> string" where
  "padStart n c s = replicate (n - length s) c @ s"

text \<open>\<^verbatim>\<open>bytes.map(b => b.toString(16).padStart(2, '0')).join('')\<close>\<close>

definition byteHex :: "byte \<Rightarrow> string" where
  "byteHex b = padStart 2 (CHR ''0'') (toString16 (unat b))"

definition toHex :: "byte list \<Rightarrow> string" where
  "toHex bs = concat (map byteHex bs)"

text \<open>\<^verbatim>\<open>s.startsWith(p)\<close>\<close>

definition startsWith :: "string \<Rightarrow> string \<Rightarrow> bool" where
  "startsWith s p = (take (length p) s = p)"

text \<open>
  \<^verbatim>\<open>s.split(c)\<close> for a one-character separator: the pieces between the separators, in
  order; the result always has at least one piece. \<open>acc\<close> holds the current piece reversed.
\<close>

fun split_acc :: "char \<Rightarrow> string \<Rightarrow> string \<Rightarrow> string list" where
  "split_acc c acc [] = [rev acc]"
| "split_acc c acc (x # xs) =
     (if x = c then rev acc # split_acc c [] xs else split_acc c (x # acc) xs)"

definition split :: "char \<Rightarrow> string \<Rightarrow> string list" where
  "split c s = split_acc c [] s"

text \<open>
  The array destructuring \<^verbatim>\<open>const [a, b] = parts\<close>: a missing element is
  \<^verbatim>\<open>undefined\<close> (\<open>None\<close>). \<open>falsy\<close> is \<^verbatim>\<open>!x\<close> on a string or \<^verbatim>\<open>undefined\<close>.
\<close>

fun destructure2 :: "string list \<Rightarrow> string option \<times> string option" where
  "destructure2 [] = (None, None)"
| "destructure2 [a] = (Some a, None)"
| "destructure2 (a # b # _) = (Some a, Some b)"

fun falsy :: "string option \<Rightarrow> bool" where
  "falsy None = True"
| "falsy (Some s) = (s = [])"

text \<open>
  \<^verbatim>\<open>s.match(/.{2}/g)\<close>: the successive non-overlapping pairs of characters neither of
  which is a line terminator, scanning from the left; \<^verbatim>\<open>null\<close> (\<open>None\<close>) when
  there is no such pair.
\<close>

definition lineTerminator :: "char \<Rightarrow> bool" where
  "lineTerminator c = (c = CHR 0x0A \<or> c = CHR 0x0D)"

fun matchPairs :: "string \<Rightarrow> string list" where
  "matchPairs (a # b # rest) =
     (if \<not> lineTerminator a \<and> \<not> lineTerminator b then [a, b] # matchPairs rest
      else matchPairs (b # rest))"
| "matchPairs _ = []"

definition match2 :: "string \<Rightarrow> string list option" where
  "match2 s = (case matchPairs s of [] \<Rightarrow> None | ps \<Rightarrow> Some ps)"

text \<open>
  \<^verbatim>\<open>parseInt(s, 16)\<close>: leading white space is skipped, then an optional sign, then
  an optional \<^verbatim>\<open>0x\<close> or \<^verbatim>\<open>0X\<close>, then the longest run of hexadecimal digits;
  \<^verbatim>\<open>NaN\<close> (\<open>None\<close>) when that run is empty.
\<close>

definition whiteSpace :: "char \<Rightarrow> bool" where
  "whiteSpace c = (c \<in> set [CHR 0x09, CHR 0x0A, CHR 0x0B, CHR 0x0C, CHR 0x0D, CHR 0x20, CHR 0xA0])"

definition hexValue :: "char \<Rightarrow> nat option" where
  "hexValue c =
     (let n = of_char c :: nat in
      if 48 \<le> n \<and> n \<le> 57 then Some (n - 48)
      else if 97 \<le> n \<and> n \<le> 102 then Some (n - 87)
      else if 65 \<le> n \<and> n \<le> 70 then Some (n - 55)
      else None)"

definition isHexDigit :: "char \<Rightarrow> bool" where
  "isHexDigit c = (hexValue c \<noteq> None)"

definition hexNumber :: "string \<Rightarrow> nat" where
  "hexNumber ds = foldl (\<lambda>v c. 16 * v + (case hexValue c of Some d \<Rightarrow> d | None \<Rightarrow> 0)) 0 ds"

definition stripSign :: "string \<Rightarrow> int \<times> string" where
  "stripSign s =
     (case s of
        c # r \<Rightarrow> if c = CHR ''-'' then (- 1, r) else if c = CHR ''+'' then (1, r) else (1, s)
      | [] \<Rightarrow> (1, s))"

definition stripHexPrefix :: "string \<Rightarrow> string" where
  "stripHexPrefix s = (if startsWith s ''0x'' \<or> startsWith s ''0X'' then drop 2 s else s)"

definition parseInt16 :: "string \<Rightarrow> int option" where
  "parseInt16 s =
     (let (sign, r) = stripSign (dropWhile whiteSpace s);
          ds = takeWhile isHexDigit (stripHexPrefix r)
      in if ds = [] then None else Some (sign * int (hexNumber ds)))"

text \<open>Storing a number into a \<^verbatim>\<open>Uint8Array\<close>: \<^verbatim>\<open>NaN\<close> becomes 0, an integer wraps modulo 256.\<close>

definition toUint8 :: "int option \<Rightarrow> byte" where
  "toUint8 v = (case v of None \<Rightarrow> 0 | Some i \<Rightarrow> of_int i)"

section \<open>Password Hashing Service (auth library)\<close>

text \<open>
  \<^verbatim>\<open>hashPassword(password)\<close>: PBKDF2 with a fresh 16-byte salt, 100000 iterations and
  256 bits, serialised as \<^verbatim>\<open>`${saltHex}$${hashHex}`\<close>. The salt drawn by
  \<^verbatim>\<open>crypto.getRandomValues(new Uint8Array(16))\<close> is the argument \<open>salt\<close>.
\<close>

definition hashPassword :: "encoder \<Rightarrow> deriveBits \<Rightarrow> byte list \<Rightarrow> string \<Rightarrow> string" where
  "hashPassword enc kdf salt password =
     (let keyMaterial = enc password;
          derivedBits = kdf keyMaterial salt 100000 256;
          saltHex = toHex salt;
          hashHex = toHex derivedBits
      in saltHex @ ''$'' @ hashHex)"

text \<open>
  The body of the \<^verbatim>\<open>try\<close> block of \<^verbatim>\<open>verifyPassword\<close>. The only exception it can
  raise is the \<^verbatim>\<open>TypeError\<close> of calling \<^verbatim>\<open>.map\<close> on the \<^verbatim>\<open>null\<close> that
  \<^verbatim>\<open>match\<close> returns. After the check \<^verbatim>\<open>!saltHex || !hashHex\<close> both parts are
  strings, so the last case is never taken.
\<close>

datatype js_error = TypeError

definition verifyPassword_try :: "encoder \<Rightarrow> deriveBits \<Rightarrow> string \<Rightarrow> string \<Rightarrow> js_error + bool" where
  "verifyPassword_try enc kdf password storedHash =
     (if startsWith storedHash ''$2'' then Inr False
      else
        (case destructure2 (split (CHR ''$'') storedHash) of
           (saltHex, hashHex) \<Rightarrow>
             if falsy saltHex \<or> falsy hashHex then Inr False
             else
               (case (saltHex, hashHex) of
                  (Some saltHex', Some hashHex') \<Rightarrow>
                    (case match2 saltHex' of
                       None \<Rightarrow> Inl TypeError
                     | Some pairs \<Rightarrow>
                         let salt = map (\<lambda>byte. toUint8 (parseInt16 byte)) pairs;
                             keyMaterial = enc password;
                             derivedBits = kdf keyMaterial salt 100000 256;
                             computedHashHex = toHex derivedBits
                         in Inr (computedHashHex = hashHex'))
                | _ \<Rightarrow> Inr False)))"

text \<open>\<^verbatim>\<open>verifyPassword\<close>: the \<^verbatim>\<open>catch\<close> branch turns every exception into \<^verbatim>\<open>false\<close>.\<close>

definition verifyPassword :: "encoder \<Rightarrow> deriveBits \<Rightarrow> string \<Rightarrow> string \<Rightarrow> bool" where
  "verifyPassword enc kdf password storedHash =
     (case verifyPassword_try enc kdf password storedHash of
        Inl _ \<Rightarrow> False
      | Inr b \<Rightarrow> b)"

section \<open>Account store\<close>

text \<open>
  The database behind \<^verbatim>\<open>queryOne\<close> and \<^verbatim>\<open>execute\<close>, with the two tables and the
  columns that the statements of the OTP route name. \<open>current_timestamp\<close> is the
  database's reading of \<^verbatim>\<open>CURRENT_TIMESTAMP\<close>; \<open>executed\<close> records the statements passed to
  \<^verbatim>\<open>execute\<close>, in order. Statements are taken to succeed.
\<close>

record table_row =
  row_id :: int
  email :: string
  role :: string
  password_hash :: string
  updated_at :: int

datatype statement =
  UPDATE_users string string string
| UPDATE_admin_users string string

record database =
  users :: "table_row list"
  admin_users :: "table_row list"
  current_timestamp :: int
  executed :: "statement list"

text \<open>\<^verbatim>\<open>SELECT id, email, password_hash FROM users WHERE email = ? AND role = ?\<close>, first row.\<close>

definition queryOne_users :: "database \<Rightarrow> string \<Rightarrow> string \<Rightarrow> table_row option" where
  "queryOne_users d e ro = find (\<lambda>r. email r = e \<and> role r = ro) (users d)"

text \<open>\<^verbatim>\<open>SELECT id, email, password_hash FROM admin_users WHERE email = ?\<close>, first row.\<close>

definition queryOne_admin_users :: "database \<Rightarrow> string \<Rightarrow> table_row option" where
  "queryOne_admin_users d e = find (\<lambda>r. email r = e) (admin_users d)"

text \<open>
  \<^verbatim>\<open>UPDATE users SET password_hash = ?, updated_at = CURRENT_TIMESTAMP WHERE email = ? AND role = ?\<close>
  and
  \<^verbatim>\<open>UPDATE admin_users SET password_hash = ?, updated_at = CURRENT_TIMESTAMP WHERE email = ?\<close>.
\<close>

definition set_password :: "string \<Rightarrow> int \<Rightarrow> table_row \<Rightarrow> table_row" where
  "set_password h ts r = r\<lparr>password_hash := h, updated_at := ts\<rparr>"

fun execute :: "database \<Rightarrow> statement \<Rightarrow> database" where
  "execute d (UPDATE_users h e ro) =
     d\<lparr>users := map (\<lambda>r. if email r = e \<and> role r = ro
                          then set_password h (current_timestamp d) r else r) (users d),
       executed := executed d @ [UPDATE_users h e ro]\<rparr>"
| "execute d (UPDATE_admin_users h e) =
     d\<lparr>admin_users := map (\<lambda>r. if email r = e
                                then set_password h (current_timestamp d) r else r) (admin_users d),
       executed := executed d @ [UPDATE_admin_users h e]\<rparr>"

section \<open>OTP route\<close>

record otp_entry =
  otp :: string
  expires :: int
  verified :: bool

text \<open>
  The state the route handler reads and writes: the module-level \<^verbatim>\<open>otpStore\<close> map, the
  database, and the console lines that \<^verbatim>\<open>sendOTPEmail\<close> writes (address and code).
\<close>

record state =
  otpStore :: "string \<rightharpoonup> otp_entry"
  db :: database
  console_log :: "(string \<times> string) list"

text \<open>
  The JSON body after \<^verbatim>\<open>const { action, email, otp, newPassword } = body\<close>: each field is
  absent (\<open>None\<close>) or a string.
\<close>

record body =
  b_action :: "string option"
  b_email :: "string option"
  b_otp :: "string option"
  b_newPassword :: "string option"

text \<open>
  The responses. \<open>text_ar\<close> names the Arabic texts of the route; \<open>Error\<close> and \<open>Message\<close> are
  the JSON keys \<^verbatim>\<open>error\<close> and \<^verbatim>\<open>message\<close>; the number is the HTTP status. Every
  response carries the same constant security headers.
  \<^item> \<open>DataIncomplete\<close>: action or email missing, or otp or newPassword missing in changePassword
  \<^item> \<open>EmailNotRegistered\<close>: the email is not the administrator's, or no such account
  \<^item> \<open>OtpSent\<close>, \<open>OtpVerified\<close>, \<open>PasswordChanged\<close>: the three successes
  \<^item> \<open>OtpRequired\<close>: verify without a code
  \<^item> \<open>OtpNotRequested\<close>: verify without a stored entry (the spec's NoChallenge)
  \<^item> \<open>OtpExpired\<close>: verify after expiry (Expired)
  \<^item> \<open>OtpIncorrect\<close>: the code differs from the stored one (CodeMismatch)
  \<^item> \<open>VerifyOtpFirst\<close>: changePassword without a verified entry (NotVerified)
  \<^item> \<open>SessionExpired\<close>: changePassword after expiry (Expired)
  \<^item> \<open>UnknownAction\<close>, \<open>ServerError\<close>
\<close>

datatype text_ar =
  DataIncomplete | EmailNotRegistered | OtpSent | OtpRequired | OtpNotRequested | OtpExpired
| OtpIncorrect | OtpVerified | VerifyOtpFirst | SessionExpired | PasswordChanged
| UnknownAction | ServerError

datatype json = Error text_ar | Message text_ar

type_synonym response = "json \<times> nat"

definition ADMIN_EMAIL :: string where
  "ADMIN_EMAIL = ''info@tdlogistics.co''"

text \<open>\<^verbatim>\<open>String(100000 + (array[0] % 900000))\<close> for the random 32-bit value \<open>rnd\<close>.\<close>

definition generateOTP :: "32 word \<Rightarrow> string" where
  "generateOTP rnd = toString10 (100000 + unat rnd mod 900000)"

definition sendOTPEmail :: "state \<Rightarrow> string \<Rightarrow> string \<Rightarrow> state" where
  "sendOTPEmail st e code = st\<lparr>console_log := console_log st @ [(e, code)]\<rparr>"

text \<open>The route's own \<^verbatim>\<open>hashPassword\<close>: the hex digits of the SHA-256 digest.\<close>

definition route_hashPassword :: "encoder \<Rightarrow> digest \<Rightarrow> string \<Rightarrow> string" where
  "route_hashPassword enc sha password = toHex (sha (enc password))"

text \<open>\<^verbatim>\<open>case 'request'\<close>\<close>

definition case_request :: "state \<Rightarrow> int \<Rightarrow> 32 word \<Rightarrow> string \<Rightarrow> response \<times> state" where
  "case_request st now rnd e =
     (let newOTP = generateOTP rnd;
          st1 = st\<lparr>otpStore := (otpStore st)
                   (e \<mapsto> \<lparr>otp = newOTP, expires = now + 10 * 60 * 1000, verified = False\<rparr>)\<rparr>;
          st2 = sendOTPEmail st1 e newOTP
      in ((Message OtpSent, 200), st2))"

text \<open>\<^verbatim>\<open>case 'verify'\<close>\<close>

definition case_verify :: "state \<Rightarrow> int \<Rightarrow> string \<Rightarrow> string option \<Rightarrow> response \<times> state" where
  "case_verify st now e code =
     (if falsy code then ((Error OtpRequired, 400), st)
      else
        (case otpStore st e of
           None \<Rightarrow> ((Error OtpNotRequested, 400), st)
         | Some stored \<Rightarrow>
             if now > expires stored
             then ((Error OtpExpired, 400), st\<lparr>otpStore := (otpStore st)(e := None)\<rparr>)
             else if Some (otp stored) \<noteq> code then ((Error OtpIncorrect, 400), st)
             else ((Message OtpVerified, 200),
                   st\<lparr>otpStore := (otpStore st)(e \<mapsto> stored\<lparr>verified := True\<rparr>)\<rparr>)))"

text \<open>
  \<^verbatim>\<open>case 'changePassword'\<close>. After the check \<^verbatim>\<open>!otp || !newPassword\<close> the new
  password is a string, so the last case is the missing entry (\<^verbatim>\<open>!stored\<close>).
\<close>

definition case_changePassword ::
  "encoder \<Rightarrow> digest \<Rightarrow> state \<Rightarrow> int \<Rightarrow> string \<Rightarrow> string option \<Rightarrow> string option \<Rightarrow> response \<times> state"
where
  "case_changePassword enc sha st now e code newPassword =
     (if falsy code \<or> falsy newPassword then ((Error DataIncomplete, 400), st)
      else
        (case (otpStore st e, newPassword) of
           (Some stored, Some newPassword') \<Rightarrow>
             if \<not> verified stored then ((Error VerifyOtpFirst, 400), st)
             else if now > expires stored
             then ((Error SessionExpired, 400), st\<lparr>otpStore := (otpStore st)(e := None)\<rparr>)
             else if Some (otp stored) \<noteq> code then ((Error OtpIncorrect, 400), st)
             else
               (let passwordHash = route_hashPassword enc sha newPassword';
                    db1 = execute (db st) (UPDATE_users passwordHash e ''admin'');
                    db2 = execute db1 (UPDATE_admin_users passwordHash e)
                in ((Message PasswordChanged, 200),
                    st\<lparr>db := db2, otpStore := (otpStore st)(e := None)\<rparr>))
         | _ \<Rightarrow> ((Error VerifyOtpFirst, 400), st)))"

text \<open>
  \<^verbatim>\<open>POST(request)\<close>. \<open>req\<close> is the result of \<^verbatim>\<open>await request.json()\<close>: \<open>None\<close> when it
  throws, which the outer \<^verbatim>\<open>catch\<close> answers with status 500. \<open>now\<close> is \<^verbatim>\<open>Date.now()\<close>
  and \<open>rnd\<close> the value drawn by \<^verbatim>\<open>crypto.getRandomValues\<close> during this request.
\<close>

definition POST ::
  "encoder \<Rightarrow> digest \<Rightarrow> state \<Rightarrow> int \<Rightarrow> 32 word \<Rightarrow> body option \<Rightarrow> response \<times> state"
where
  "POST enc sha st now rnd req =
     (case req of
        None \<Rightarrow> ((Error ServerError, 500), st)
      | Some b \<Rightarrow>
          if falsy (b_action b) \<or> falsy (b_email b) then ((Error DataIncomplete, 400), st)
          else
            (case (b_action b, b_email b) of
               (Some action, Some e) \<Rightarrow>
                 if e \<noteq> ADMIN_EMAIL then ((Error EmailNotRegistered, 404), st)
                 else if queryOne_users (db st) e ''admin'' = None
                        \<and> queryOne_admin_users (db st) e = None
                 then ((Error EmailNotRegistered, 404), st)
                 else if action = ''request'' then case_request st now rnd e
                 else if action = ''verify'' then case_verify st now e (b_otp b)
                 else if action = ''changePassword''
                 then case_changePassword enc sha st now e (b_otp b) (b_newPassword b)
                 else ((Error UnknownAction, 400), st)
             | _ \<Rightarrow> ((Error DataIncomplete, 400), st)))"

section \<open>Requests and sample data\<close>

text \<open>The bodies of the three requests a client sends.\<close>

definition request_body :: "string \<Rightarrow> body" where
  "request_body e =
     \<lparr>b_action = Some ''request'', b_email = Some e, b_otp = None, b_newPassword = None\<rparr>"

definition verify_body :: "string \<Rightarrow> string \<Rightarrow> body" where
  "verify_body e code =
     \<lparr>b_action = Some ''verify'', b_email = Some e, b_otp = Some code, b_newPassword = None\<rparr>"

definition changePassword_body :: "string \<Rightarrow> string \<Rightarrow> string \<Rightarrow> body" where
  "changePassword_body e code newPassword =
     \<lparr>b_action = Some ''changePassword'', b_email = Some e, b_otp = Some code,
      b_newPassword = Some newPassword\<rparr>"

text \<open>
  An identity passes the gate at the head of \<^verbatim>\<open>POST\<close> when it is the administrator's
  address and one of the two tables holds the account.
\<close>

definition eligible :: "database \<Rightarrow> string \<Rightarrow> bool" where
  "eligible d e =
     (e = ADMIN_EMAIL \<and>
      (if queryOne_users d e ''admin'' = None then queryOne_admin_users d e \<noteq> None else True))"

text \<open>
  Stand-ins for the platform functions, used only to evaluate the definitions on concrete
  inputs: the bytes of an ASCII string, a digest that returns its input, and a derivation
  that returns the first \<open>bits div 8\<close> bytes of key material and salt, padded with zeros.
\<close>

definition sample_enc :: encoder where
  "sample_enc s = map (\<lambda>c. of_nat (of_char c)) s"

definition sample_sha :: digest where
  "sample_sha bs = bs"

definition sample_kdf :: deriveBits where
  "sample_kdf keyMaterial salt iterations bits =
     take (bits div 8) (keyMaterial @ salt @ replicate (bits div 8) 0)"

definition sample_salt :: "byte list" where
  "sample_salt = [0, 1, 2, 3, 4, 5, 6, 7, 8, 9, 10, 11, 12, 13, 14, 15]"

definition sample_db :: database where
  "sample_db =
     \<lparr>users = [\<lparr>row_id = 1, email = ADMIN_EMAIL, role = ''admin'', password_hash = ''old'',
                updated_at = 0\<rparr>],
      admin_users = [], current_timestamp = 7, executed = []\<rparr>"

definition sample_state :: state where
  "sample_state = \<lparr>otpStore = Map.empty, db = sample_db, console_log = []\<rparr>"

text \<open>The sample state after a request at time 0, and after verifying its code at time 1000.\<close>

definition sample_requested :: state where
  "sample_requested =
     snd (POST sample_enc sample_sha sample_state 0 0 (Some (request_body ADMIN_EMAIL)))"

definition sample_verified :: state where
  "sample_verified =
     snd (POST sample_enc sample_sha sample_requested 1000 0
            (Some (verify_body ADMIN_EMAIL ''100000'')))"

text \<open>The sample state after a second request, at time 2000 with the random value 900000.\<close>

definition sample_rerequested :: state where
  "sample_rerequested =
     snd (POST sample_enc sample_sha sample_requested 2000 900000
            (Some (request_body ADMIN_EMAIL)))"

section \<open>Stored values that the service cannot verify\<close>

text \<open>
  The spec's words for a stored value: legacy when it has the bcrypt-style prefix, malformed
  when the part before the first separator (the salt) or the part after it (the derived
  key) is missing.
\<close>

definition legacy_format :: "string \<Rightarrow> bool" where
  "legacy_format stored = (take 2 stored = ''$2'')"

definition salt_part :: "string \<Rightarrow> string" where
  "salt_part stored = takeWhile (\<lambda>x. x \<noteq> CHR ''$'') stored"

definition key_part :: "string \<Rightarrow> string" where
  "key_part stored =
     takeWhile (\<lambda>x. x \<noteq> CHR ''$'') (drop 1 (dropWhile (\<lambda>x. x \<noteq> CHR ''$'') stored))"

definition malformed :: "string \<Rightarrow> bool" where
  "malformed stored = (salt_part stored = [] \<or> key_part stored = [])"

section \<open>Hexadecimal encoding and decoding\<close>

lemma nat_less_16_cases:
  "n < 16 \<Longrightarrow> n \<in> {0, 1, 2, 3, 4, 5, 6, 7, 8, 9, 10, 11, 12, 13, 14, 15::nat}"
  by (simp; arith)

lemma hexValue_digitChar: "n < 16 \<Longrightarrow> hexValue (digitChar n) = Some n"
  by (drule nat_less_16_cases) (auto simp: hexValue_def digitChar_def)

lemma digitChar_not_special:
  "n < 16 \<Longrightarrow>
     \<not> whiteSpace (digitChar n) \<and> \<not> lineTerminator (digitChar n) \<and> digitChar n \<noteq> CHR ''$'' \<and>
     digitChar n \<noteq> CHR ''-'' \<and> digitChar n \<noteq> CHR ''+'' \<and>
     digitChar n \<noteq> CHR ''x'' \<and> digitChar n \<noteq> CHR ''X''"
  by (drule nat_less_16_cases) (auto simp: whiteSpace_def lineTerminator_def digitChar_def)

lemma unat_byte_less: "unat (b :: byte) < 256"
proof -
  have "unat b < 2 ^ LENGTH(8)" by (rule unsigned_less)
  then show ?thesis by simp
qed

lemma byteHex_eq: "byteHex b = [digitChar (unat b div 16), digitChar (unat b mod 16)]"
proof (cases "unat b < 16")
  case True
  then show ?thesis by (simp add: byteHex_def padStart_def digitChar_def)
next
  case False
  from unat_byte_less [of b] have "unat b div 16 < 16" by simp
  with False show ?thesis by (simp add: byteHex_def padStart_def)
qed

lemma dollar_notin_byteHex: "CHR ''$'' \<notin> set (byteHex b)"
proof -
  from unat_byte_less [of b] have h: "unat b div 16 < 16" and l: "unat b mod 16 < 16"
    by simp_all
  show ?thesis
    using digitChar_not_special [OF h] digitChar_not_special [OF l] by (auto simp: byteHex_eq)
qed

lemma dollar_notin_toHex: "CHR ''$'' \<notin> set (toHex bs)"
  by (induction bs) (simp_all add: toHex_def dollar_notin_byteHex)

lemma toHex_Nil_iff: "toHex bs = [] \<longleftrightarrow> bs = []"
  by (cases bs) (simp_all add: toHex_def byteHex_eq)

lemma parseInt16_byteHex: "toUint8 (parseInt16 (byteHex b)) = b"
proof -
  let ?h = "unat b div 16" and ?l = "unat b mod 16"
  from unat_byte_less [of b] have h: "?h < 16" and l: "?l < 16" by simp_all
  have "parseInt16 [digitChar ?h, digitChar ?l] = Some (int (16 * ?h + ?l))"
    using digitChar_not_special [OF h] digitChar_not_special [OF l]
      hexValue_digitChar [OF h] hexValue_digitChar [OF l]
    by (simp add: parseInt16_def stripSign_def stripHexPrefix_def startsWith_def isHexDigit_def
        hexNumber_def)
  then show ?thesis by (simp add: byteHex_eq toUint8_def)
qed

lemma matchPairs_toHex: "matchPairs (toHex bs) = map byteHex bs"
proof (induction bs)
  case Nil
  then show ?case by (simp add: toHex_def)
next
  case (Cons b bs)
  from unat_byte_less [of b] have "unat b div 16 < 16" and "unat b mod 16 < 16" by simp_all
  then have "\<not> lineTerminator (digitChar (unat b div 16))"
    and "\<not> lineTerminator (digitChar (unat b mod 16))"
    by (simp_all add: digitChar_not_special)
  with Cons show ?case by (simp add: toHex_def byteHex_eq)
qed

lemma decode_toHex: "map (\<lambda>byte. toUint8 (parseInt16 byte)) (matchPairs (toHex bs)) = bs"
  by (simp add: matchPairs_toHex parseInt16_byteHex o_def map_idI)

lemma toHex_inj: "toHex xs = toHex ys \<Longrightarrow> xs = ys"
  by (metis decode_toHex)

section \<open>Splitting at the separator\<close>

lemma split_acc_no_sep: "c \<notin> set s \<Longrightarrow> split_acc c acc s = [rev acc @ s]"
  by (induction s arbitrary: acc) auto

lemma split_acc_sep:
  "c \<notin> set pre \<Longrightarrow> split_acc c acc (pre @ c # post) = (rev acc @ pre) # split_acc c [] post"
  by (induction pre arbitrary: acc) auto

lemma split_no_sep: "c \<notin> set s \<Longrightarrow> split c s = [s]"
  by (simp add: split_def split_acc_no_sep)

lemma split_two: "c \<notin> set pre \<Longrightarrow> c \<notin> set post \<Longrightarrow> split c (pre @ c # post) = [pre, post]"
  by (simp add: split_def split_acc_sep split_acc_no_sep)

lemma split_acc_shape:
  "split_acc c acc s =
     (rev acc @ takeWhile (\<lambda>x. x \<noteq> c) s) #
       (case dropWhile (\<lambda>x. x \<noteq> c) s of [] \<Rightarrow> [] | _ # r \<Rightarrow> split_acc c [] r)"
  by (induction s arbitrary: acc) auto

lemma split_shape:
  "split c s =
     takeWhile (\<lambda>x. x \<noteq> c) s #
       (case dropWhile (\<lambda>x. x \<noteq> c) s of [] \<Rightarrow> [] | _ # r \<Rightarrow> split c r)"
  unfolding split_def by (subst split_acc_shape) simp

lemma destructure2_split:
  "destructure2 (split c s) =
     (Some (takeWhile (\<lambda>x. x \<noteq> c) s),
      case dropWhile (\<lambda>x. x \<noteq> c) s of [] \<Rightarrow> None
      | _ # r \<Rightarrow> Some (takeWhile (\<lambda>x. x \<noteq> c) r))"
proof (cases "dropWhile (\<lambda>x. x \<noteq> c) s")
  case Nil
  show ?thesis by (subst split_shape) (simp only: Nil list.case destructure2.simps)
next
  case (Cons x r)
  then have "split c s = takeWhile (\<lambda>x. x \<noteq> c) s # split c r"
    by (subst split_shape) simp
  also have "split c r = takeWhile (\<lambda>x. x \<noteq> c) r #
       (case dropWhile (\<lambda>x. x \<noteq> c) r of [] \<Rightarrow> [] | _ # r' \<Rightarrow> split c r')"
    by (rule split_shape)
  finally show ?thesis using Cons by simp
qed

section \<open>Password hashing and verification\<close>

lemma hashPassword_not_legacy:
  assumes "salt \<noteq> []"
  shows "\<not> startsWith (hashPassword enc kdf salt s) ''$2''"
proof -
  from assms obtain b bs where "salt = b # bs" by (cases salt) auto
  moreover from unat_byte_less [of b] have "unat b div 16 < 16" by simp
  then have "digitChar (unat b div 16) \<noteq> CHR ''$''" by (simp add: digitChar_not_special)
  ultimately show ?thesis
    by (simp add: hashPassword_def startsWith_def toHex_def byteHex_eq)
qed

text \<open>
  Verifying against a value made by \<open>hashPassword\<close> raises no exception and succeeds exactly
  when the derived key is not empty and the two derivations agree.
\<close>

lemma verifyPassword_try_hashPassword:
  assumes "salt \<noteq> []"
  shows "verifyPassword_try enc kdf s2 (hashPassword enc kdf salt s1) =
           Inr (kdf (enc s1) salt 100000 256 \<noteq> [] \<and>
                kdf (enc s2) salt 100000 256 = kdf (enc s1) salt 100000 256)"
proof -
  let ?d1 = "kdf (enc s1) salt 100000 256"
  have parts: "split (CHR ''$'') (hashPassword enc kdf salt s1) = [toHex salt, toHex ?d1]"
    by (simp add: hashPassword_def split_two dollar_notin_toHex)
  have m: "match2 (toHex salt) = Some (map byteHex salt)"
    using assms by (cases salt) (simp_all add: match2_def matchPairs_toHex)
  have dec: "map (\<lambda>byte. toUint8 (parseInt16 byte)) (map byteHex salt) = salt"
    using decode_toHex [of salt] by (simp add: matchPairs_toHex)
  show ?thesis
    using assms hashPassword_not_legacy [OF assms, of enc kdf s1] dec
    by (auto simp add: verifyPassword_try_def parts m toHex_Nil_iff Let_def dest: toHex_inj)
qed

text \<open>A stored value without a separator has no derived-key part.\<close>

lemma verifyPassword_try_no_separator:
  assumes "CHR ''$'' \<notin> set h"
  shows "verifyPassword_try enc kdf p h = Inr False"
proof -
  from assms have "\<not> startsWith h ''$2''" by (cases h) (auto simp: startsWith_def)
  moreover have "split (CHR ''$'') h = [h]" using assms by (rule split_no_sep)
  ultimately show ?thesis by (simp add: verifyPassword_try_def)
qed

text \<open>
  C4. For every secret \<open>s\<close> and every 16-byte salt, verifying \<open>s\<close> against the hash of \<open>s\<close>
  returns true; and for two secrets whose PBKDF2 derivations under that salt differ, verifying
  the one against the hash of the other returns false. The derivation returns 256 bits.
\<close>

theorem verify_hash_roundtrip:
  assumes "length salt = 16"
    and "length (kdf (enc s) salt 100000 256) = 32"
  shows "verifyPassword enc kdf s (hashPassword enc kdf salt s) \<and>
         (kdf (enc s2) salt 100000 256 \<noteq> kdf (enc s1) salt 100000 256 \<longrightarrow>
            \<not> verifyPassword enc kdf s2 (hashPassword enc kdf salt s1))"
proof -
  from assms have ne: "salt \<noteq> []" and d: "kdf (enc s) salt 100000 256 \<noteq> []" by auto
  show ?thesis
    by (simp add: verifyPassword_def verifyPassword_try_hashPassword [OF ne] d)
qed

theorem verify_hash_roundtrip_witness:
  "length sample_salt = 16 \<and>
   length (sample_kdf (sample_enc ''pw'') sample_salt 100000 256) = 32 \<and>
   verifyPassword sample_enc sample_kdf ''pw''
     (hashPassword sample_enc sample_kdf sample_salt ''pw'') \<and>
   sample_kdf (sample_enc ''px'') sample_salt 100000 256
     \<noteq> sample_kdf (sample_enc ''pw'') sample_salt 100000 256 \<and>
   \<not> verifyPassword sample_enc sample_kdf ''px''
     (hashPassword sample_enc sample_kdf sample_salt ''pw'')"
  using verify_hash_roundtrip [of sample_salt sample_kdf sample_enc "''pw''" "''px''" "''pw''"]
  by (simp add: sample_kdf_def sample_enc_def sample_salt_def)

text \<open>
  C3. For every password \<open>p\<close> and every new password \<open>n\<close>, the service's \<open>verifyPassword\<close>
  of \<open>p\<close> against the value that the OTP route's own \<open>hashPassword\<close> produces for \<open>n\<close>
  returns false (without an exception): that value is a run of hexadecimal digits with no
  separator, so the derived-key part is missing.
\<close>

theorem route_hash_never_verifies:
  "verifyPassword_try enc kdf p (route_hashPassword enc' sha n) = Inr False \<and>
   \<not> verifyPassword enc kdf p (route_hashPassword enc' sha n)"
proof -
  have "CHR ''$'' \<notin> set (route_hashPassword enc' sha n)"
    by (simp add: route_hashPassword_def dollar_notin_toHex)
  then have "verifyPassword_try enc kdf p (route_hashPassword enc' sha n) = Inr False"
    by (rule verifyPassword_try_no_separator)
  then show ?thesis by (simp add: verifyPassword_def)
qed

text \<open>
  C8. For every secret and every stored value that is legacy-format or malformed, the body of
  \<open>verifyPassword\<close> returns false without raising, and so \<open>verifyPassword\<close> returns false.
\<close>

theorem verify_legacy_or_malformed:
  assumes "legacy_format stored \<or> malformed stored"
  shows "verifyPassword_try enc kdf secret stored = Inr False \<and>
         \<not> verifyPassword enc kdf secret stored"
proof -
  have "verifyPassword_try enc kdf secret stored = Inr False"
  proof (cases "legacy_format stored")
    case True
    then show ?thesis
      by (simp add: verifyPassword_try_def legacy_format_def startsWith_def numeral_2_eq_2)
  next
    case False
    with assms have "malformed stored" by simp
    then show ?thesis
      by (auto simp add: verifyPassword_try_def destructure2_split malformed_def salt_part_def
          key_part_def split: list.splits)
  qed
  then show ?thesis by (simp add: verifyPassword_def)
qed

theorem verify_legacy_or_malformed_witness:
  "(legacy_format ''$2b$10$N9qo8uLOickgx2ZMRZoMye'' \<or> malformed ''$2b$10$N9qo8uLOickgx2ZMRZoMye'') \<and>
   verifyPassword_try sample_enc sample_kdf ''pw'' ''$2b$10$N9qo8uLOickgx2ZMRZoMye'' = Inr False \<and>
   \<not> verifyPassword sample_enc sample_kdf ''pw'' ''$2b$10$N9qo8uLOickgx2ZMRZoMye'' \<and>
   (legacy_format ''0a1b2c'' \<or> malformed ''0a1b2c'') \<and>
   verifyPassword_try sample_enc sample_kdf ''pw'' ''0a1b2c'' = Inr False \<and>
   \<not> verifyPassword sample_enc sample_kdf ''pw'' ''0a1b2c''"
  using verify_legacy_or_malformed [of "''$2b$10$N9qo8uLOickgx2ZMRZoMye''" sample_enc sample_kdf "''pw''"]
    verify_legacy_or_malformed [of "''0a1b2c''" sample_enc sample_kdf "''pw''"]
  by (simp add: legacy_format_def malformed_def salt_part_def key_part_def)

section \<open>Steps of the OTP route\<close>

lemma toString10_nonempty: "toString10 n \<noteq> []"
  by (subst toString10.simps) simp

lemma generateOTP_nonempty: "generateOTP rnd \<noteq> []"
  by (simp only: generateOTP_def toString10_nonempty not_False_eq_True)

lemma generateOTP_0: "generateOTP 0 = ''100000''"
  by (simp add: generateOTP_def digitChar_def)

lemma generateOTP_1: "generateOTP 1 = ''100001''"
  by (simp add: generateOTP_def digitChar_def)

lemma generateOTP_900000: "generateOTP 900000 = ''100000''"
  by (simp add: generateOTP_def digitChar_def)

lemma ADMIN_EMAIL_nonempty: "ADMIN_EMAIL \<noteq> []"
  by (simp add: ADMIN_EMAIL_def)

text \<open>For an eligible identity the handler reaches the \<^verbatim>\<open>switch\<close>.\<close>

lemma POST_request:
  "eligible (db st) e \<Longrightarrow>
     POST enc sha st now rnd (Some (request_body e)) = case_request st now rnd e"
  by (auto simp add: POST_def eligible_def request_body_def ADMIN_EMAIL_nonempty split: if_splits)

lemma POST_verify:
  "eligible (db st) e \<Longrightarrow>
     POST enc sha st now rnd (Some (verify_body e code)) = case_verify st now e (Some code)"
  by (auto simp add: POST_def eligible_def verify_body_def ADMIN_EMAIL_nonempty split: if_splits)

lemma POST_changePassword:
  "eligible (db st) e \<Longrightarrow>
     POST enc sha st now rnd (Some (changePassword_body e code n)) =
       case_changePassword enc sha st now e (Some code) (Some n)"
  by (auto simp add: POST_def eligible_def changePassword_body_def ADMIN_EMAIL_nonempty
      split: if_splits)

text \<open>The updates change neither the address nor the role of a row.\<close>

lemma find_map_preserved:
  "(\<And>r. P (f r) = P r) \<Longrightarrow> find P (map f rs) = map_option f (find P rs)"
  by (induction rs) auto

lemma queryOne_users_execute:
  "(queryOne_users (execute d stmt) e ro = None) = (queryOne_users d e ro = None)"
  by (cases stmt) (simp_all add: queryOne_users_def set_password_def find_map_preserved)

lemma queryOne_admin_users_execute:
  "(queryOne_admin_users (execute d stmt) e = None) = (queryOne_admin_users d e = None)"
  by (cases stmt) (simp_all add: queryOne_admin_users_def set_password_def find_map_preserved)

lemma eligible_execute: "eligible (execute d stmt) e = eligible d e"
  by (simp add: eligible_def queryOne_users_execute queryOne_admin_users_execute)

lemma executed_execute: "executed (execute d stmt) = executed d @ [stmt]"
  by (cases stmt) simp_all

subsection \<open>The sample states\<close>

lemma eligible_sample: "eligible (db sample_state) ADMIN_EMAIL"
  by (simp add: eligible_def sample_state_def sample_db_def queryOne_users_def)

lemma eligible_sample_db: "eligible sample_db ADMIN_EMAIL"
  using eligible_sample by (simp add: sample_state_def)

lemma sample_requested_eq:
  "sample_requested =
     \<lparr>otpStore = [ADMIN_EMAIL \<mapsto> \<lparr>otp = ''100000'', expires = 600000, verified = False\<rparr>],
      db = sample_db, console_log = [(ADMIN_EMAIL, ''100000'')]\<rparr>"
  unfolding sample_requested_def POST_request [OF eligible_sample]
  by (simp add: case_request_def sendOTPEmail_def generateOTP_0 sample_state_def Let_def)

lemma eligible_sample_requested: "eligible (db sample_requested) ADMIN_EMAIL"
  by (simp add: sample_requested_eq eligible_sample_db)

lemma sample_verified_eq:
  "sample_verified =
     \<lparr>otpStore = [ADMIN_EMAIL \<mapsto> \<lparr>otp = ''100000'', expires = 600000, verified = True\<rparr>],
      db = sample_db, console_log = [(ADMIN_EMAIL, ''100000'')]\<rparr>"
  by (simp add: sample_verified_def POST_verify [OF eligible_sample_requested] case_verify_def)
    (simp add: sample_requested_eq)

lemma eligible_sample_verified: "eligible (db sample_verified) ADMIN_EMAIL"
  by (simp add: sample_verified_eq eligible_sample_db)

lemma sample_rerequested_eq:
  "sample_rerequested =
     \<lparr>otpStore = [ADMIN_EMAIL \<mapsto> \<lparr>otp = ''100000'', expires = 602000, verified = False\<rparr>],
      db = sample_db, console_log = [(ADMIN_EMAIL, ''100000''), (ADMIN_EMAIL, ''100000'')]\<rparr>"
  by (simp add: sample_rerequested_def POST_request [OF eligible_sample_requested]
        case_request_def sendOTPEmail_def generateOTP_900000 Let_def)
    (simp add: sample_requested_eq)

lemma eligible_sample_rerequested: "eligible (db sample_rerequested) ADMIN_EMAIL"
  by (simp add: sample_rerequested_eq eligible_sample_db)

section \<open>The OTP challenge\<close>

text \<open>
  C7. For an eligible identity with a live challenge holding code \<open>C\<close>, a verify call with
  a code different from \<open>C\<close> answers CodeMismatch (\<open>OtpIncorrect\<close>) and leaves the whole
  state, and so the stored entry, unchanged; a following verify call with \<open>C\<close>, still
  before the expiry, succeeds. The wrong code is a supplied one (not the empty string, which
  the handler answers as a missing code).
\<close>

theorem verify_wrong_code_frame:
  assumes "eligible (db st) e"
    and "otpStore st e = Some stored" and "otp stored = C"
    and "now \<le> expires stored" and "now' \<le> expires stored"
    and "code \<noteq> []" and "code \<noteq> C" and "C \<noteq> []"
  shows "POST enc sha st now rnd (Some (verify_body e code)) = ((Error OtpIncorrect, 400), st) \<and>
         otpStore (snd (POST enc sha st now rnd (Some (verify_body e code)))) e = Some stored \<and>
         fst (POST enc sha (snd (POST enc sha st now rnd (Some (verify_body e code)))) now' rnd'
                (Some (verify_body e C))) = (Message OtpVerified, 200)"
proof -
  have wrong: "POST enc sha st now rnd (Some (verify_body e code)) = ((Error OtpIncorrect, 400), st)"
    using assms by (auto simp add: POST_verify case_verify_def)
  have right: "fst (POST enc sha st now' rnd' (Some (verify_body e C))) =
      (Message OtpVerified, 200)"
    using assms by (auto simp add: POST_verify case_verify_def)
  from wrong right assms(2) show ?thesis by simp
qed

theorem verify_wrong_code_frame_witness:
  "eligible (db sample_requested) ADMIN_EMAIL \<and>
   otpStore sample_requested ADMIN_EMAIL =
     Some \<lparr>otp = ''100000'', expires = 600000, verified = False\<rparr> \<and>
   otp \<lparr>otp = ''100000'', expires = 600000, verified = False\<rparr> = ''100000'' \<and>
   (1000 :: int) \<le> expires \<lparr>otp = ''100000'', expires = 600000, verified = False\<rparr> \<and>
   (2000 :: int) \<le> expires \<lparr>otp = ''100000'', expires = 600000, verified = False\<rparr> \<and>
   ''000000'' \<noteq> [] \<and> ''000000'' \<noteq> ''100000'' \<and> ''100000'' \<noteq> [] \<and>
   POST sample_enc sample_sha sample_requested 1000 0 (Some (verify_body ADMIN_EMAIL ''000000'')) =
     ((Error OtpIncorrect, 400), sample_requested) \<and>
   otpStore (snd (POST sample_enc sample_sha sample_requested 1000 0
                    (Some (verify_body ADMIN_EMAIL ''000000'')))) ADMIN_EMAIL =
     Some \<lparr>otp = ''100000'', expires = 600000, verified = False\<rparr> \<and>
   fst (POST sample_enc sample_sha
          (snd (POST sample_enc sample_sha sample_requested 1000 0
                  (Some (verify_body ADMIN_EMAIL ''000000''))))
          2000 0 (Some (verify_body ADMIN_EMAIL ''100000''))) = (Message OtpVerified, 200)"
proof -
  let ?stored = "\<lparr>otp = ''100000'', expires = 600000, verified = False\<rparr>"
  have h2: "otpStore sample_requested ADMIN_EMAIL = Some ?stored"
    by (simp add: sample_requested_eq)
  have h3: "otp ?stored = ''100000''"
    and h4: "(1000 :: int) \<le> expires ?stored" and h5: "(2000 :: int) \<le> expires ?stored"
    and h6: "''000000'' \<noteq> []" and h7: "''000000'' \<noteq> ''100000''" and h8: "''100000'' \<noteq> []"
    by simp_all
  from verify_wrong_code_frame [OF eligible_sample_requested h2 h3 h4 h5 h6 h7 h8,
      where enc = sample_enc and sha = sample_sha and rnd = 0 and rnd' = 0]
    eligible_sample_requested h2 h3 h4 h5 h6 h7 h8
  show ?thesis by blast
qed

text \<open>
  C5. For an eligible identity, request issues a code \<open>C\<close>; verify with \<open>C\<close> within the ten
  minutes succeeds and marks the entry verified, and up to here the database is untouched;
  changePassword with \<open>C\<close> within the ten minutes succeeds, executes the two updates that
  write the hash of the new password into the account's rows, and deletes the entry; a second
  changePassword with the same code, at any time and with any new password, answers
  NotVerified (\<open>VerifyOtpFirst\<close>) and changes nothing, the database included.
\<close>

theorem otp_lifecycle_consumed_once:
  assumes "eligible (db st0) e"
    and "now1 \<le> now0 + 600000" and "now2 \<le> now0 + 600000"
    and "newPassword \<noteq> []" and "newPassword' \<noteq> []"
  shows "let C = generateOTP rnd0;
             h = route_hashPassword enc sha newPassword;
             (r1, st1) = POST enc sha st0 now0 rnd0 (Some (request_body e));
             (r2, st2) = POST enc sha st1 now1 rnd1 (Some (verify_body e C));
             (r3, st3) = POST enc sha st2 now2 rnd2 (Some (changePassword_body e C newPassword));
             (r4, st4) = POST enc sha st3 now3 rnd3 (Some (changePassword_body e C newPassword'))
         in r1 = (Message OtpSent, 200) \<and>
            console_log st1 = console_log st0 @ [(e, C)] \<and>
            otpStore st1 e = Some \<lparr>otp = C, expires = now0 + 600000, verified = False\<rparr> \<and>
            r2 = (Message OtpVerified, 200) \<and>
            otpStore st2 e = Some \<lparr>otp = C, expires = now0 + 600000, verified = True\<rparr> \<and>
            db st2 = db st0 \<and>
            r3 = (Message PasswordChanged, 200) \<and>
            db st3 = execute (execute (db st0) (UPDATE_users h e ''admin''))
                       (UPDATE_admin_users h e) \<and>
            executed (db st3) =
              executed (db st0) @ [UPDATE_users h e ''admin'', UPDATE_admin_users h e] \<and>
            users (db st3) =
              map (\<lambda>r. if email r = e \<and> role r = ''admin''
                       then r\<lparr>password_hash := h, updated_at := current_timestamp (db st0)\<rparr>
                       else r) (users (db st0)) \<and>
            admin_users (db st3) =
              map (\<lambda>r. if email r = e
                       then r\<lparr>password_hash := h, updated_at := current_timestamp (db st0)\<rparr>
                       else r) (admin_users (db st0)) \<and>
            otpStore st3 e = None \<and>
            r4 = (Error VerifyOtpFirst, 400) \<and>
            st4 = st3"
proof -
  define C where "C = generateOTP rnd0"
  define h where "h = route_hashPassword enc sha newPassword"
  define st1 where "st1 = snd (case_request st0 now0 rnd0 e)"
  define st2 where "st2 = snd (case_verify st1 now1 e (Some C))"
  define st3 where "st3 = snd (case_changePassword enc sha st2 now2 e (Some C) (Some newPassword))"
  have C: "C \<noteq> []" by (simp add: C_def generateOTP_nonempty)
  have d1: "db st1 = db st0"
    by (simp add: st1_def case_request_def sendOTPEmail_def Let_def)
  have e1: "eligible (db st1) e"
    using assms(1) by (simp add: d1)
  have l1: "console_log st1 = console_log st0 @ [(e, C)]"
    by (simp add: st1_def case_request_def sendOTPEmail_def Let_def C_def)
  have s1: "otpStore st1 e = Some \<lparr>otp = C, expires = now0 + 600000, verified = False\<rparr>"
    by (simp add: st1_def case_request_def sendOTPEmail_def Let_def C_def)
  have r1: "case_request st0 now0 rnd0 e = ((Message OtpSent, 200), st1)"
    by (simp add: st1_def case_request_def Let_def)
  have r2: "case_verify st1 now1 e (Some C) = ((Message OtpVerified, 200), st2)"
    using assms(2) C by (simp add: st2_def case_verify_def s1)
  have s2: "otpStore st2 e = Some \<lparr>otp = C, expires = now0 + 600000, verified = True\<rparr>"
    using assms(2) C by (simp add: st2_def case_verify_def s1)
  have d2: "db st2 = db st0"
    using assms(2) C by (simp add: st2_def case_verify_def s1 d1)
  have e2: "eligible (db st2) e"
    using assms(1) by (simp add: d2)
  have r3: "case_changePassword enc sha st2 now2 e (Some C) (Some newPassword) =
      ((Message PasswordChanged, 200), st3)"
    using assms(3,4) C by (simp add: st3_def case_changePassword_def s2 Let_def)
  have s3: "otpStore st3 e = None"
    using assms(3,4) C by (simp add: st3_def case_changePassword_def s2 Let_def)
  have d3: "db st3 = execute (execute (db st0) (UPDATE_users h e ''admin''))
                       (UPDATE_admin_users h e)"
    using assms(3,4) C
    by (simp add: st3_def case_changePassword_def s2 d2 h_def Let_def del: execute.simps)
  have x3: "executed (db st3) =
      executed (db st0) @ [UPDATE_users h e ''admin'', UPDATE_admin_users h e]"
    by (simp add: d3 executed_execute del: execute.simps)
  have u3: "users (db st3) =
      map (\<lambda>r. if email r = e \<and> role r = ''admin''
               then r\<lparr>password_hash := h, updated_at := current_timestamp (db st0)\<rparr>
               else r) (users (db st0))"
    by (simp add: d3 set_password_def)
  have a3: "admin_users (db st3) =
      map (\<lambda>r. if email r = e
               then r\<lparr>password_hash := h, updated_at := current_timestamp (db st0)\<rparr>
               else r) (admin_users (db st0))"
    by (simp add: d3 set_password_def)
  have e3: "eligible (db st3) e"
    using assms(1) by (simp add: d3 eligible_execute del: execute.simps)
  have r4: "case_changePassword enc sha st3 now3 e (Some C) (Some newPassword') =
      ((Error VerifyOtpFirst, 400), st3)"
    using assms(5) C by (simp add: case_changePassword_def s3)
  have "r1' = (Message OtpSent, 200) \<and>
        console_log st1 = console_log st0 @ [(e, C)] \<and>
        otpStore st1 e = Some \<lparr>otp = C, expires = now0 + 600000, verified = False\<rparr> \<and>
        r2' = (Message OtpVerified, 200) \<and>
        otpStore st2 e = Some \<lparr>otp = C, expires = now0 + 600000, verified = True\<rparr> \<and>
        db st2 = db st0 \<and>
        r3' = (Message PasswordChanged, 200) \<and>
        db st3 = execute (execute (db st0) (UPDATE_users h e ''admin''))
                   (UPDATE_admin_users h e) \<and>
        executed (db st3) =
          executed (db st0) @ [UPDATE_users h e ''admin'', UPDATE_admin_users h e] \<and>
        users (db st3) =
          map (\<lambda>r. if email r = e \<and> role r = ''admin''
                   then r\<lparr>password_hash := h, updated_at := current_timestamp (db st0)\<rparr>
                   else r) (users (db st0)) \<and>
        admin_users (db st3) =
          map (\<lambda>r. if email r = e
                   then r\<lparr>password_hash := h, updated_at := current_timestamp (db st0)\<rparr>
                   else r) (admin_users (db st0)) \<and>
        otpStore st3 e = None \<and>
        r4' = (Error VerifyOtpFirst, 400) \<and>
        st4' = st3"
    if "r1' = (Message OtpSent, 200)" "r2' = (Message OtpVerified, 200)"
      "r3' = (Message PasswordChanged, 200)" "r4' = (Error VerifyOtpFirst, 400)" "st4' = st3"
    for r1' r2' r3' r4' st4'
    using that l1 s1 s2 d2 d3 x3 u3 a3 s3 by blast
  then show ?thesis
    unfolding Let_def C_def [symmetric] h_def [symmetric]
      POST_request [OF assms(1)] r1 prod.case POST_verify [OF e1] r2
      POST_changePassword [OF e2] r3 POST_changePassword [OF e3] r4
    by blast
qed

theorem otp_lifecycle_consumed_once_witness:
  "eligible (db sample_state) ADMIN_EMAIL \<and>
   (1000 :: int) \<le> 0 + 600000 \<and> (2000 :: int) \<le> 0 + 600000 \<and>
   ''NewP@ss1'' \<noteq> [] \<and> ''Other#Pw2'' \<noteq> [] \<and>
   (let C = generateOTP 0;
        h = route_hashPassword sample_enc sample_sha ''NewP@ss1'';
        (r1, st1) = POST sample_enc sample_sha sample_state 0 0 (Some (request_body ADMIN_EMAIL));
        (r2, st2) = POST sample_enc sample_sha st1 1000 0 (Some (verify_body ADMIN_EMAIL C));
        (r3, st3) = POST sample_enc sample_sha st2 2000 0
                      (Some (changePassword_body ADMIN_EMAIL C ''NewP@ss1''));
        (r4, st4) = POST sample_enc sample_sha st3 3000 0
                      (Some (changePassword_body ADMIN_EMAIL C ''Other#Pw2''))
    in r1 = (Message OtpSent, 200) \<and>
       console_log st1 = console_log sample_state @ [(ADMIN_EMAIL, C)] \<and>
       otpStore st1 ADMIN_EMAIL = Some \<lparr>otp = C, expires = 0 + 600000, verified = False\<rparr> \<and>
       r2 = (Message OtpVerified, 200) \<and>
       otpStore st2 ADMIN_EMAIL = Some \<lparr>otp = C, expires = 0 + 600000, verified = True\<rparr> \<and>
       db st2 = db sample_state \<and>
       r3 = (Message PasswordChanged, 200) \<and>
       db st3 = execute (execute (db sample_state) (UPDATE_users h ADMIN_EMAIL ''admin''))
                  (UPDATE_admin_users h ADMIN_EMAIL) \<and>
       executed (db st3) =
         executed (db sample_state) @
           [UPDATE_users h ADMIN_EMAIL ''admin'', UPDATE_admin_users h ADMIN_EMAIL] \<and>
       otpStore st3 ADMIN_EMAIL = None \<and>
       r4 = (Error VerifyOtpFirst, 400) \<and>
       st4 = st3)"
proof -
  have h2: "(1000 :: int) \<le> 0 + 600000" and h3: "(2000 :: int) \<le> 0 + 600000"
    and h4: "''NewP@ss1'' \<noteq> []" and h5: "''Other#Pw2'' \<noteq> []"
    by simp_all
  from otp_lifecycle_consumed_once [OF eligible_sample h2 h3 h4 h5,
      where enc = sample_enc and sha = sample_sha
        and ?rnd0.0 = 0 and ?rnd1.0 = 0 and ?rnd2.0 = 0 and ?now3.0 = 3000 and ?rnd3.0 = 0]
    eligible_sample h2 h3 h4 h5
  show ?thesis unfolding Let_def by (auto split: prod.splits)
qed

text \<open>
  C6, as amended. For an eligible identity a request stores a fresh unverified entry whatever
  was stored before, so the map holds one entry for the identity; after two requests whose
  issued codes differ, a verify call with the first code answers CodeMismatch
  (\<open>OtpIncorrect\<close>) and changes nothing, and a verify call with the second code, within its
  ten minutes, succeeds.
\<close>

theorem request_replaces_challenge:
  assumes "eligible (db st0) e"
    and "generateOTP rnd1 \<noteq> generateOTP rnd2"
    and "now3 \<le> now2 + 600000" and "now4 \<le> now2 + 600000"
  shows "let C1 = generateOTP rnd1; C2 = generateOTP rnd2;
             (r1, st1) = POST enc sha st0 now1 rnd1 (Some (request_body e));
             (r2, st2) = POST enc sha st1 now2 rnd2 (Some (request_body e));
             (r3, st3) = POST enc sha st2 now3 rnd3 (Some (verify_body e C1));
             (r4, st4) = POST enc sha st3 now4 rnd4 (Some (verify_body e C2))
         in otpStore st1 e = Some \<lparr>otp = C1, expires = now1 + 600000, verified = False\<rparr> \<and>
            otpStore st2 e = Some \<lparr>otp = C2, expires = now2 + 600000, verified = False\<rparr> \<and>
            r3 = (Error OtpIncorrect, 400) \<and> st3 = st2 \<and>
            r4 = (Message OtpVerified, 200) \<and>
            otpStore st4 e = Some \<lparr>otp = C2, expires = now2 + 600000, verified = True\<rparr>"
proof -
  define C1 where "C1 = generateOTP rnd1"
  define C2 where "C2 = generateOTP rnd2"
  define st1 where "st1 = snd (case_request st0 now1 rnd1 e)"
  define st2 where "st2 = snd (case_request st1 now2 rnd2 e)"
  define st4 where "st4 = snd (case_verify st2 now4 e (Some C2))"
  have ne: "C1 \<noteq> []" "C2 \<noteq> []" "C1 \<noteq> C2"
    using assms(2) by (simp_all add: C1_def C2_def generateOTP_nonempty)
  have e1: "eligible (db st1) e"
    using assms(1) by (simp add: st1_def case_request_def sendOTPEmail_def Let_def)
  have e2: "eligible (db st2) e"
    using e1 by (simp add: st2_def case_request_def sendOTPEmail_def Let_def)
  have r1: "case_request st0 now1 rnd1 e = ((Message OtpSent, 200), st1)"
    by (simp add: st1_def case_request_def Let_def)
  have r2: "case_request st1 now2 rnd2 e = ((Message OtpSent, 200), st2)"
    by (simp add: st2_def case_request_def Let_def)
  have s1: "otpStore st1 e = Some \<lparr>otp = C1, expires = now1 + 600000, verified = False\<rparr>"
    by (simp add: st1_def case_request_def sendOTPEmail_def Let_def C1_def)
  have s2: "otpStore st2 e = Some \<lparr>otp = C2, expires = now2 + 600000, verified = False\<rparr>"
    by (simp add: st2_def case_request_def sendOTPEmail_def Let_def C2_def)
  have r3: "case_verify st2 now3 e (Some C1) = ((Error OtpIncorrect, 400), st2)"
    using assms(3) ne by (auto simp add: case_verify_def s2)
  have r4: "case_verify st2 now4 e (Some C2) = ((Message OtpVerified, 200), st4)"
    using assms(4) ne by (simp add: st4_def case_verify_def s2)
  have s4: "otpStore st4 e = Some \<lparr>otp = C2, expires = now2 + 600000, verified = True\<rparr>"
    using assms(4) ne by (simp add: st4_def case_verify_def s2)
  show ?thesis
    unfolding Let_def C1_def [symmetric] C2_def [symmetric]
    by (simp add: POST_request [OF assms(1)] r1 POST_request [OF e1] r2
        POST_verify [OF e2] r3 r4 s1 s2 s4)
qed

theorem request_replaces_challenge_witness:
  "eligible (db sample_state) ADMIN_EMAIL \<and>
   generateOTP 0 \<noteq> generateOTP 1 \<and>
   (3000 :: int) \<le> 2000 + 600000 \<and> (4000 :: int) \<le> 2000 + 600000 \<and>
   (let C1 = generateOTP 0; C2 = generateOTP 1;
        (r1, st1) = POST sample_enc sample_sha sample_state 1000 0 (Some (request_body ADMIN_EMAIL));
        (r2, st2) = POST sample_enc sample_sha st1 2000 1 (Some (request_body ADMIN_EMAIL));
        (r3, st3) = POST sample_enc sample_sha st2 3000 0 (Some (verify_body ADMIN_EMAIL C1));
        (r4, st4) = POST sample_enc sample_sha st3 4000 0 (Some (verify_body ADMIN_EMAIL C2))
    in otpStore st1 ADMIN_EMAIL = Some \<lparr>otp = C1, expires = 1000 + 600000, verified = False\<rparr> \<and>
       otpStore st2 ADMIN_EMAIL = Some \<lparr>otp = C2, expires = 2000 + 600000, verified = False\<rparr> \<and>
       r3 = (Error OtpIncorrect, 400) \<and> st3 = st2 \<and>
       r4 = (Message OtpVerified, 200) \<and>
       otpStore st4 ADMIN_EMAIL = Some \<lparr>otp = C2, expires = 2000 + 600000, verified = True\<rparr>)"
proof -
  have h2: "generateOTP 0 \<noteq> generateOTP 1" by (simp add: generateOTP_0 generateOTP_1)
  have h3: "(3000 :: int) \<le> 2000 + 600000" and h4: "(4000 :: int) \<le> 2000 + 600000"
    by simp_all
  from request_replaces_challenge [OF eligible_sample h2 h3 h4,
      where enc = sample_enc and sha = sample_sha and ?now1.0 = 1000 and ?rnd3.0 = 0
        and ?rnd4.0 = 0]
    eligible_sample h2 h3 h4
  show ?thesis by blast
qed

text \<open>
  The claim as stated fails when the two draws give the same code: the random values 0 and
  900000 both give \<open>100000\<close>, and after the two requests a verify call with the first
  issued code succeeds.
\<close>

theorem rerequest_same_code_counterexample:
  "generateOTP 0 = ''100000'' \<and>
   generateOTP 900000 = ''100000'' \<and>
   otpStore sample_requested ADMIN_EMAIL =
     Some \<lparr>otp = ''100000'', expires = 600000, verified = False\<rparr> \<and>
   otpStore sample_rerequested ADMIN_EMAIL =
     Some \<lparr>otp = ''100000'', expires = 602000, verified = False\<rparr> \<and>
   fst (POST sample_enc sample_sha sample_rerequested 3000 0
          (Some (verify_body ADMIN_EMAIL ''100000''))) = (Message OtpVerified, 200)"
  by (simp add: generateOTP_0 generateOTP_900000 POST_verify [OF eligible_sample_rerequested]
        case_verify_def)
    (simp add: sample_requested_eq sample_rerequested_eq)

text \<open>
  C2, as amended. For an eligible identity holding a challenge, once the clock is past the
  entry's expiry: a verify call with a code answers Expired (\<open>OtpExpired\<close>) and deletes the
  entry, verified or not; a changePassword call with a code and a new password answers
  Expired (\<open>SessionExpired\<close>) and deletes the entry when the entry is verified, and answers
  NotVerified (\<open>VerifyOtpFirst\<close>) and changes nothing when it is not; and a following
  request, after either outcome, stores a new unverified entry with its own code and expiry.
\<close>

theorem expired_challenge_rejected:
  assumes "eligible (db st) e"
    and "otpStore st e = Some stored"
    and "expires stored < now"
    and "code \<noteq> []" and "newPassword \<noteq> []"
  shows "POST enc sha st now rnd (Some (verify_body e code)) =
           ((Error OtpExpired, 400), st\<lparr>otpStore := (otpStore st)(e := None)\<rparr>) \<and>
         POST enc sha st now rnd (Some (changePassword_body e code newPassword)) =
           (if verified stored
            then ((Error SessionExpired, 400), st\<lparr>otpStore := (otpStore st)(e := None)\<rparr>)
            else ((Error VerifyOtpFirst, 400), st)) \<and>
         otpStore (snd (POST enc sha (st\<lparr>otpStore := (otpStore st)(e := None)\<rparr>) now' rnd'
                          (Some (request_body e)))) e =
           Some \<lparr>otp = generateOTP rnd', expires = now' + 600000, verified = False\<rparr> \<and>
         otpStore (snd (POST enc sha st now' rnd' (Some (request_body e)))) e =
           Some \<lparr>otp = generateOTP rnd', expires = now' + 600000, verified = False\<rparr>"
proof -
  have v: "POST enc sha st now rnd (Some (verify_body e code)) =
           ((Error OtpExpired, 400), st\<lparr>otpStore := (otpStore st)(e := None)\<rparr>)"
    using assms by (simp add: POST_verify case_verify_def)
  have c: "POST enc sha st now rnd (Some (changePassword_body e code newPassword)) =
           (if verified stored
            then ((Error SessionExpired, 400), st\<lparr>otpStore := (otpStore st)(e := None)\<rparr>)
            else ((Error VerifyOtpFirst, 400), st))"
    using assms by (simp add: POST_changePassword case_changePassword_def)
  have e': "eligible (db (st\<lparr>otpStore := (otpStore st)(e := None)\<rparr>)) e"
    using assms(1) by simp
  have q: "otpStore (snd (POST enc sha st' now' rnd' (Some (request_body e)))) e =
           Some \<lparr>otp = generateOTP rnd', expires = now' + 600000, verified = False\<rparr>"
    if "eligible (db st') e" for st'
    using that by (simp add: POST_request case_request_def sendOTPEmail_def Let_def)
  from v c q [OF e'] q [OF assms(1)] show ?thesis by simp
qed

theorem expired_challenge_rejected_witness:
  "eligible (db sample_verified) ADMIN_EMAIL \<and>
   otpStore sample_verified ADMIN_EMAIL =
     Some \<lparr>otp = ''100000'', expires = 600000, verified = True\<rparr> \<and>
   expires \<lparr>otp = ''100000'', expires = 600000, verified = True\<rparr> < 600001 \<and>
   ''100000'' \<noteq> [] \<and> ''NewP@ss1'' \<noteq> [] \<and>
   POST sample_enc sample_sha sample_verified 600001 0 (Some (verify_body ADMIN_EMAIL ''100000'')) =
     ((Error OtpExpired, 400),
      sample_verified\<lparr>otpStore := (otpStore sample_verified)(ADMIN_EMAIL := None)\<rparr>) \<and>
   POST sample_enc sample_sha sample_verified 600001 0
       (Some (changePassword_body ADMIN_EMAIL ''100000'' ''NewP@ss1'')) =
     ((Error SessionExpired, 400),
      sample_verified\<lparr>otpStore := (otpStore sample_verified)(ADMIN_EMAIL := None)\<rparr>) \<and>
   otpStore (snd (POST sample_enc sample_sha
                    (sample_verified\<lparr>otpStore := (otpStore sample_verified)(ADMIN_EMAIL := None)\<rparr>)
                    700000 1 (Some (request_body ADMIN_EMAIL)))) ADMIN_EMAIL =
     Some \<lparr>otp = generateOTP 1, expires = 700000 + 600000, verified = False\<rparr>"
proof -
  let ?stored = "\<lparr>otp = ''100000'', expires = 600000, verified = True\<rparr>"
  have h2: "otpStore sample_verified ADMIN_EMAIL = Some ?stored"
    by (simp add: sample_verified_eq)
  have h3: "expires ?stored < 600001" by simp
  have h4: "''100000'' \<noteq> []" and h5: "''NewP@ss1'' \<noteq> []" by simp_all
  from expired_challenge_rejected [OF eligible_sample_verified h2 h3 h4 h5,
      where enc = sample_enc and sha = sample_sha and rnd = 0 and now' = 700000 and rnd' = 1]
    eligible_sample_verified h2
  show ?thesis by simp
qed

text \<open>
  The claim as stated fails for an unverified entry: after a request at time 0, a
  changePassword call at time 600001 answers NotVerified and leaves the expired entry stored.
\<close>

theorem expired_unverified_changePassword_counterexample:
  "otpStore sample_requested ADMIN_EMAIL =
     Some \<lparr>otp = ''100000'', expires = 600000, verified = False\<rparr> \<and>
   (600000 :: int) < 600001 \<and>
   POST sample_enc sample_sha sample_requested 600001 0
     (Some (changePassword_body ADMIN_EMAIL ''100000'' ''NewP@ss1'')) =
       ((Error VerifyOtpFirst, 400), sample_requested)"
  by (simp add: POST_changePassword [OF eligible_sample_requested] case_changePassword_def)
    (simp add: sample_requested_eq)

section \<open>The credential written by changePassword\<close>

text \<open>
  C10, as amended. Every successful changePassword call passes exactly two statements to
  \<open>execute\<close>: the update of the \<open>users\<close> table and then the update of the \<open>admin_users\<close>
  table, both with the same new hash.
\<close>

theorem changePassword_issues_two_updates:
  assumes "fst (POST enc sha st now rnd (Some (changePassword_body e code newPassword))) =
             (Message PasswordChanged, 200)"
  shows "executed (db (snd (POST enc sha st now rnd
                              (Some (changePassword_body e code newPassword))))) =
           executed (db st) @
             [UPDATE_users (route_hashPassword enc sha newPassword) e ''admin'',
              UPDATE_admin_users (route_hashPassword enc sha newPassword) e]"
  using assms
  by (auto simp add: POST_def changePassword_body_def case_changePassword_def Let_def
      split: if_splits option.splits)

lemma sample_changePassword_succeeds:
  "fst (POST sample_enc sample_sha sample_verified 2000 0
          (Some (changePassword_body ADMIN_EMAIL ''100000'' ''NewP@ss1''))) =
     (Message PasswordChanged, 200)"
  by (simp add: POST_changePassword [OF eligible_sample_verified] case_changePassword_def)
    (simp add: sample_verified_eq Let_def)

theorem changePassword_issues_two_updates_witness:
  "fst (POST sample_enc sample_sha sample_verified 2000 0
          (Some (changePassword_body ADMIN_EMAIL ''100000'' ''NewP@ss1''))) =
     (Message PasswordChanged, 200) \<and>
   executed (db (snd (POST sample_enc sample_sha sample_verified 2000 0
          (Some (changePassword_body ADMIN_EMAIL ''100000'' ''NewP@ss1''))))) =
     executed (db sample_verified) @
       [UPDATE_users (route_hashPassword sample_enc sample_sha ''NewP@ss1'') ADMIN_EMAIL ''admin'',
        UPDATE_admin_users (route_hashPassword sample_enc sample_sha ''NewP@ss1'') ADMIN_EMAIL]"
  using changePassword_issues_two_updates [OF sample_changePassword_succeeds]
    sample_changePassword_succeeds
  by simp

text \<open>
  The claim as stated fails: a successful changePassword call on the sample state, whose log
  of executed statements is empty, leaves two statements in the log.
\<close>

theorem changePassword_single_update_counterexample:
  "fst (POST sample_enc sample_sha sample_verified 2000 0
          (Some (changePassword_body ADMIN_EMAIL ''100000'' ''NewP@ss1''))) =
     (Message PasswordChanged, 200) \<and>
   executed (db sample_verified) = [] \<and>
   length (executed (db (snd (POST sample_enc sample_sha sample_verified 2000 0
          (Some (changePassword_body ADMIN_EMAIL ''100000'' ''NewP@ss1'')))))) = 2"
  by (simp add: POST_changePassword [OF eligible_sample_verified] case_changePassword_def
        Let_def executed_execute del: execute.simps)
    (simp add: sample_verified_eq sample_db_def Let_def)

text \<open>
  C1. The claim says that the credential persisted by a successful changePassword is the
  \<open>salt$derivedKey\<close> value of \<open>hashPassword\<close>. On the sample state with a verified
  challenge, the call with the new password \<open>NewP@ss1\<close> succeeds and writes the hexadecimal
  digits of the SHA-256 digest of the password; that value differs from
  \<open>hashPassword\<close> of the password for every salt, and \<open>verifyPassword\<close> rejects the
  password against it.
\<close>

theorem changePassword_stores_unsalted_digest:
  "POST enc sha sample_verified 2000 0
       (Some (changePassword_body ADMIN_EMAIL ''100000'' ''NewP@ss1'')) =
     ((Message PasswordChanged, 200),
      \<lparr>otpStore = Map.empty,
       db = \<lparr>users = [\<lparr>row_id = 1, email = ADMIN_EMAIL, role = ''admin'',
                       password_hash = toHex (sha (enc ''NewP@ss1'')), updated_at = 7\<rparr>],
             admin_users = [], current_timestamp = 7,
             executed = [UPDATE_users (toHex (sha (enc ''NewP@ss1''))) ADMIN_EMAIL ''admin'',
                         UPDATE_admin_users (toHex (sha (enc ''NewP@ss1''))) ADMIN_EMAIL]\<rparr>,
       console_log = [(ADMIN_EMAIL, ''100000'')]\<rparr>) \<and>
   (\<forall>salt. toHex (sha (enc ''NewP@ss1'')) \<noteq> hashPassword enc kdf salt ''NewP@ss1'') \<and>
   \<not> verifyPassword enc kdf ''NewP@ss1'' (toHex (sha (enc ''NewP@ss1'')))"
proof -
  have run: "POST enc sha sample_verified 2000 0
       (Some (changePassword_body ADMIN_EMAIL ''100000'' ''NewP@ss1'')) =
     ((Message PasswordChanged, 200),
      \<lparr>otpStore = Map.empty,
       db = \<lparr>users = [\<lparr>row_id = 1, email = ADMIN_EMAIL, role = ''admin'',
                       password_hash = toHex (sha (enc ''NewP@ss1'')), updated_at = 7\<rparr>],
             admin_users = [], current_timestamp = 7,
             executed = [UPDATE_users (toHex (sha (enc ''NewP@ss1''))) ADMIN_EMAIL ''admin'',
                         UPDATE_admin_users (toHex (sha (enc ''NewP@ss1''))) ADMIN_EMAIL]\<rparr>,
       console_log = [(ADMIN_EMAIL, ''100000'')]\<rparr>)"
    by (simp add: POST_changePassword [OF eligible_sample_verified] case_changePassword_def)
      (simp add: sample_verified_eq sample_db_def route_hashPassword_def set_password_def Let_def)
  have nd: "CHR ''$'' \<notin> set (toHex (sha (enc ''NewP@ss1'')))"
    by (rule dollar_notin_toHex)
  have differ: "toHex (sha (enc ''NewP@ss1'')) \<noteq> hashPassword enc kdf salt ''NewP@ss1''" for salt
  proof
    assume "toHex (sha (enc ''NewP@ss1'')) = hashPassword enc kdf salt ''NewP@ss1''"
    with nd have "CHR ''$'' \<notin> set (hashPassword enc kdf salt ''NewP@ss1'')" by simp
    then show False by (simp add: hashPassword_def)
  qed
  have "\<not> verifyPassword enc kdf ''NewP@ss1'' (toHex (sha (enc ''NewP@ss1'')))"
    by (simp add: verifyPassword_def verifyPassword_try_no_separator [OF nd])
  with run differ show ?thesis by blast
qed

end
